theory Spec2Isabelle
  imports Main
begin

section \<open>The Statistics Access Layer of stadata-x (stadata_x/api_client.py)\<close>

text \<open>
  A shallow embedding of \<^verbatim>\<open>ApiClient\<close>. Coroutines are modelled as state-passing
  functions on a \<open>world\<close>: the state of the remote provider, the number of provider
  operations invoked, the delays slept, the files on disk, the wall clock and the log of
  keyed HTTP lookups. An exception is a value \<open>Inl e\<close> of the result type \<open>exn + 'a\<close>.
\<close>

subsection \<open>Exceptions\<close>

text \<open>
  The exception classes the module raises or catches, one constructor per most specific
  class. \<open>HTTPError\<close> carries \<^verbatim>\<open>e.response.status_code\<close> (an \<open>HTTPError\<close> has
  a response). The classes of
  \<^verbatim>\<open>requests.exceptions\<close> (\<open>HTTPError\<close>, \<open>ConnectionError\<close>, \<open>Timeout\<close>) are
  subclasses of \<^verbatim>\<open>IOError\<close>; \<open>OSError\<close> stands for every other \<^verbatim>\<open>IOError\<close>;
  \<open>ValueError\<close> stands for a \<^verbatim>\<open>ValueError\<close> that is not a
  \<^verbatim>\<open>json.JSONDecodeError\<close> (a \<^verbatim>\<open>UnicodeDecodeError\<close>, the unsupported format of
  \<^verbatim>\<open>download_table\<close>); \<open>PlainException\<close> is the bare \<^verbatim>\<open>Exception\<close> of
  \<^verbatim>\<open>download_table\<close>. Messages are left out, except the path of \<open>FileExistsError\<close>.
\<close>

datatype exn =
    HTTPError nat
  | ConnectionError
  | Timeout
  | OSError
  | JSONDecodeError
  | ValueError
  | TypeError
  | AttributeError
  | PlainException
  | FileExistsError string
  | ApiTokenError
  | BpsServerError
  | NoInternetError
  | BpsApiDataError

subsection \<open>The world\<close>

record disk_file =
  content :: string
  mtime :: int

record 's world =
  provider :: 's
  calls :: nat
  sleeps :: "nat list"
  files :: "string \<Rightarrow> disk_file option"
  clock :: int
  http_log :: "(string \<times> string) list"

text \<open>
  A provider operation (\<^verbatim>\<open>self.client.list_domain\<close>, ...) with its arguments applied:
  it reads and changes the provider's state and returns or raises.
\<close>

type_synonym ('s, 'a) api_function = "'s \<Rightarrow> (exn + 'a) \<times> 's"

text \<open>\<^verbatim>\<open>await asyncio.to_thread(api_function, *args, **kwargs)\<close>: one invocation.\<close>

definition to_thread :: "('s, 'a) api_function \<Rightarrow> 's world \<Rightarrow> (exn + 'a) \<times> 's world" where
  "to_thread api_function w =
     (case api_function (provider w) of
        (r, s') \<Rightarrow> (r, w\<lparr>provider := s', calls := Suc (calls w)\<rparr>))"

text \<open>\<^verbatim>\<open>await asyncio.sleep(delay)\<close>: the delay is recorded.\<close>

definition sleep :: "nat \<Rightarrow> 's world \<Rightarrow> 's world" where
  "sleep delay w = w\<lparr>sleeps := sleeps w @ [delay]\<rparr>"

subsection \<open>\<^verbatim>\<open>_api_call_with_retry\<close>\<close>

definition max_retries :: nat where
  "max_retries = 3"

definition base_delay :: nat where
  "base_delay = 1"

text \<open>
  The \<^verbatim>\<open>for attempt in range(max_retries)\<close> loop, as recursion on the attempts left.
  The first equation is the statement after the loop (line 106).
\<close>

fun retry_loop :: "('s, 'a) api_function \<Rightarrow> nat list \<Rightarrow> 's world \<Rightarrow> (exn + 'a) \<times> 's world" where
  "retry_loop api_function [] w = (Inl BpsServerError, w)"
| "retry_loop api_function (attempt # rest) w =
     (case to_thread api_function w of
        (Inr result, w') \<Rightarrow> (Inr result, w')
      | (Inl e, w') \<Rightarrow>
          (case e of
             HTTPError status_code \<Rightarrow>
               if status_code = 429 then
                 if attempt < max_retries - 1 then
                   retry_loop api_function rest (sleep (base_delay * 2 ^ attempt) w')
                 else (Inl e, w')
               else (Inl e, w')
           | _ \<Rightarrow> (Inl e, w')))"

definition api_call_with_retry :: "('s, 'a) api_function \<Rightarrow> 's world \<Rightarrow> (exn + 'a) \<times> 's world" where
  "api_call_with_retry api_function w = retry_loop api_function [0..<max_retries] w"

text \<open>
  Test doubles for the provider: an operation that raises HTTP 429 at every call, and an
  operation that plays a script of outcomes, one per call (a connection failure once the
  script is used up).
\<close>

definition always_429 :: "(unit, 'a) api_function" where
  "always_429 s = (Inl (HTTPError 429), s)"

fun scripted :: "((exn + 'a) list, 'a) api_function" where
  "scripted [] = (Inl ConnectionError, [])"
| "scripted (r # rs) = (r, rs)"

definition world0 :: "'s \<Rightarrow> 's world" where
  "world0 s = \<lparr>provider = s, calls = 0, sleeps = [], files = (\<lambda>p. None), clock = 0, http_log = []\<rparr>"

subsection \<open>\<^verbatim>\<open>_decode_datacontent_key\<close>\<close>

text \<open>
  The slice \<^verbatim>\<open>s[i:j]\<close> of Python for constants \<open>0 \<le> i \<le> j\<close>: both bounds are clipped
  to the length of \<open>s\<close>, so a slice never raises and an out-of-range slice is shorter
  or empty.
\<close>

definition py_slice :: "nat \<Rightarrow> nat \<Rightarrow> 'c list \<Rightarrow> 'c list" where
  "py_slice i j s = take (j - i) (drop i s)"

text \<open>
  The returned \<^verbatim>\<open>dict\<close> is an association list in insertion order. The decoder does
  not look at the characters, so the key is a list over any character type.
\<close>

definition decode_datacontent_key :: "'c list \<Rightarrow> (string \<times> 'c list) list" where
  "decode_datacontent_key key =
     [(''domain'', py_slice 0 4 key),
      (''year'', py_slice 4 6 key),
      (''vertical_group'', py_slice 6 8 key),
      (''vertical_item'', py_slice 8 13 key),
      (''horizontal'', py_slice 13 16 key),
      (''derived'', py_slice 16 19 key)]"


subsection \<open>Tables (\<^verbatim>\<open>pandas.DataFrame\<close>)\<close>

text \<open>
  A column or row label is a string, an integer or a missing value (\<^verbatim>\<open>None\<close>,
  \<^verbatim>\<open>NaN\<close>: what \<^verbatim>\<open>pd.isna\<close> accepts). The column headers are flat (an
  \<^verbatim>\<open>Index\<close> of labels) or hierarchical (a \<^verbatim>\<open>MultiIndex\<close> of tuples of labels).
  A row is its index label and its cells; a cell is \<open>None\<close> when it is missing.
\<close>

datatype label = LStr string | LInt int | LMissing

datatype columns = Index "label list" | MultiIndex "label list list"

record 'v dataframe =
  df_columns :: columns
  df_rows :: "(label \<times> 'v option list) list"

definition ncols :: "columns \<Rightarrow> nat" where
  "ncols cs = (case cs of Index ls \<Rightarrow> length ls | MultiIndex ts \<Rightarrow> length ts)"

text \<open>\<^verbatim>\<open>df.empty\<close>: an axis of length 0.\<close>

definition df_empty :: "'v dataframe \<Rightarrow> bool" where
  "df_empty df = (df_rows df = [] \<or> ncols (df_columns df) = 0)"

text \<open>\<^verbatim>\<open>str\<close> of a natural number and of an integer, in decimal.\<close>

definition digit_char :: "nat \<Rightarrow> char" where
  "digit_char d = ''0123456789'' ! d"

fun str_nat :: "nat \<Rightarrow> string" where
  "str_nat n = (if n < 10 then [digit_char n] else str_nat (n div 10) @ [digit_char (n mod 10)])"

declare str_nat.simps [simp del]

definition str_int :: "int \<Rightarrow> string" where
  "str_int i = (if i < 0 then CHR ''-'' # str_nat (nat (- i)) else str_nat (nat i))"

definition isna :: "label \<Rightarrow> bool" where
  "isna x = (x = LMissing)"

definition str_label :: "label \<Rightarrow> string" where
  "str_label x = (case x of LStr s \<Rightarrow> s | LInt i \<Rightarrow> str_int i | LMissing \<Rightarrow> ''nan'')"

text \<open>\<^verbatim>\<open>' '.join(parts)\<close> and \<^verbatim>\<open>s.strip()\<close> (white space of the Latin-1 range).\<close>

fun join_space :: "string list \<Rightarrow> string" where
  "join_space [] = []"
| "join_space [x] = x"
| "join_space (x # y # ys) = x @ '' '' @ join_space (y # ys)"

definition is_space :: "char \<Rightarrow> bool" where
  "is_space c = ((of_char c :: nat) \<in> {9, 10, 11, 12, 13, 28, 29, 30, 31, 32, 133, 160})"

definition py_strip :: "string \<Rightarrow> string" where
  "py_strip s = rev (dropWhile is_space (rev (dropWhile is_space s)))"

subsection \<open>\<^verbatim>\<open>_clean_bps_dataframe\<close>\<close>

text \<open>The flat name of one hierarchical column (the body of the loop of lines 401-403).\<close>

definition flatten_col :: "label list \<Rightarrow> string" where
  "flatten_col col =
     py_strip (join_space (map str_label (filter (\<lambda>x. \<not> isna x \<and> str_label x \<noteq> ''nan'') col)))"

text \<open>The comprehension of lines 407-408 at position \<open>i\<close>.\<close>

definition rename_col :: "nat \<Rightarrow> label \<Rightarrow> label" where
  "rename_col i col =
     LStr (if col = LStr [] \<or> isna col then ''Unnamed_'' @ str_nat i else str_label col)"

definition rename_columns :: "label list \<Rightarrow> label list" where
  "rename_columns cols = map (\<lambda>(i, col). rename_col i col) (enumerate 0 cols)"

text \<open>\<^verbatim>\<open>df.dropna(how='all')\<close>: the rows whose cells are all missing are dropped.\<close>

definition dropna_all :: "(label \<times> 'v option list) list \<Rightarrow> (label \<times> 'v option list) list" where
  "dropna_all rs = filter (\<lambda>r. \<not> list_all (\<lambda>c. c = None) (snd r)) rs"

text \<open>\<^verbatim>\<open>df.reset_index(drop=True)\<close>: the rows are numbered from 0.\<close>

definition reset_index :: "(label \<times> 'v option list) list \<Rightarrow> (label \<times> 'v option list) list" where
  "reset_index rs = map (\<lambda>(i, r). (LInt (int i), snd r)) (enumerate 0 rs)"

text \<open>
  No step of the \<^verbatim>\<open>try\<close> block raises on a table of this model, so the
  \<^verbatim>\<open>except Exception: return df\<close> branch has no case here. The function also assigns
  the new headers to the table it was given; the model is the returned table.
\<close>

definition clean_bps_dataframe :: "'v dataframe \<Rightarrow> 'v dataframe" where
  "clean_bps_dataframe df =
     (let cols = (case df_columns df of
                    MultiIndex tuples \<Rightarrow> map (\<lambda>col. LStr (flatten_col col)) tuples
                  | Index labels \<Rightarrow> labels)
      in \<lparr>df_columns = Index (rename_columns cols),
          df_rows = reset_index (dropna_all (df_rows df))\<rparr>)"

definition is_flat :: "'v dataframe \<Rightarrow> bool" where
  "is_flat df = (case df_columns df of Index labels \<Rightarrow> True | MultiIndex tuples \<Rightarrow> False)"

subsection \<open>JSON values\<close>

text \<open>
  What \<^verbatim>\<open>response.json()\<close> returns. An object is an association list (a
  \<^verbatim>\<open>dict\<close> in insertion order, looked up with \<open>map_of\<close>). Numbers are integers:
  no branch of the module reads a number.
\<close>

datatype json =
    JNull
  | JBool bool
  | JNum int
  | JStr string
  | JArr "json list"
  | JObj "(string \<times> json) list"

subsection \<open>The environment and the client\<close>

text \<open>
  What writing a table to a path comes to: the file holds the text written, or the
  write raised and left the file untouched (\<open>None\<close>: the directory or the file could
  not be opened) or with the given content (a file opened for writing is truncated
  before the serialiser runs).
\<close>

datatype write_outcome = Written string | WriteFailed exn "string option"

text \<open>
  What the module takes from its collaborators, which are not part of it: the
  configuration (\<^verbatim>\<open>config.CONFIG_DIR / "domain_cache.json"\<close>, \<^verbatim>\<open>config.load_token()\<close>,
  the \<^verbatim>\<open>download_path\<close> setting), the file system's \<^verbatim>\<open>is_dir\<close> and current
  directory, \<^verbatim>\<open>pathlib\<close>'s \<^verbatim>\<open>/\<close>, the writers of files, and the reader of the
  cache file: \<open>load_frame\<close> is the outcome of \<^verbatim>\<open>open\<close>, \<^verbatim>\<open>json.load\<close> and
  \<^verbatim>\<open>pd.DataFrame(data)\<close> on a file of the given content, a table or the exception
  raised. \<open>http_get domain var model key\<close> is the outcome of the keyed lookup
  \<^verbatim>\<open>requests.get(base_url, params, timeout=30)\<close> followed by
  \<^verbatim>\<open>response.raise_for_status()\<close> and \<^verbatim>\<open>response.json()\<close>; \<open>unescape\<close> is
  \<^verbatim>\<open>html.unescape\<close>. \<open>write_cache df path\<close> is the outcome of lines 128-130
  (\<^verbatim>\<open>mkdir\<close>, \<^verbatim>\<open>open(path, "w")\<close>, \<^verbatim>\<open>df.to_json(f, orient="records", indent=4)\<close>);
  \<open>to_csv\<close>, \<open>to_excel\<close> and \<open>to_json\<close> are the outcomes of the writers of pandas
  called with a path (lines 386, 388, 390).
\<close>

record 'v env =
  cache_file :: string
  load_token :: "string option"
  download_path :: "string option"
  is_dir :: "string \<Rightarrow> bool"
  cwd :: string
  joinpath :: "string \<Rightarrow> string \<Rightarrow> string"
  load_frame :: "string \<Rightarrow> exn + 'v dataframe"
  write_cache :: "'v dataframe \<Rightarrow> string \<Rightarrow> write_outcome"
  to_json :: "'v dataframe \<Rightarrow> string \<Rightarrow> write_outcome"
  to_csv :: "'v dataframe \<Rightarrow> string \<Rightarrow> write_outcome"
  to_excel :: "'v dataframe \<Rightarrow> string \<Rightarrow> write_outcome"
  http_get :: "string \<Rightarrow> string \<Rightarrow> string \<Rightarrow> string \<Rightarrow> exn + json"
  unescape :: "string \<Rightarrow> string"

text \<open>What a provider operation returns: a table, or something that is not a table.\<close>

datatype 'v api_result = Frame "'v dataframe" | NotFrame string

text \<open>
  \<^verbatim>\<open>self.client\<close>, the operations of the provider's SDK. \<^verbatim>\<open>self.client\<close> is
  \<^verbatim>\<open>None\<close> when there is no token (\<open>is_ready\<close> is false).
\<close>

record ('s, 'v) client =
  list_domain :: "('s, 'v api_result) api_function"
  view_statictable :: "string \<Rightarrow> string \<Rightarrow> ('s, 'v api_result) api_function"

definition is_ready :: "('s, 'v) client option \<Rightarrow> bool" where
  "is_ready client = (client \<noteq> None)"

text \<open>
  Writing a file. When the file is written or left truncated, its content is replaced and
  its modification time is the clock; the exception of a failed write is returned. The
  clock is the time \<^verbatim>\<open>datetime.now()\<close> reads; durations are not modelled.
\<close>

definition put_file :: "string \<Rightarrow> string \<Rightarrow> 's world \<Rightarrow> 's world" where
  "put_file path text w = w\<lparr>files := (files w)(path \<mapsto> \<lparr>content = text, mtime = clock w\<rparr>)\<rparr>"

definition write_file :: "string \<Rightarrow> write_outcome \<Rightarrow> 's world \<Rightarrow> exn option \<times> 's world" where
  "write_file path outcome w =
     (case outcome of
        Written text \<Rightarrow> (None, put_file path text w)
      | WriteFailed e None \<Rightarrow> (Some e, w)
      | WriteFailed e (Some left) \<Rightarrow> (Some e, put_file path left w))"

text \<open>
  The \<^verbatim>\<open>except\<close> clauses shared by \<^verbatim>\<open>list_domains\<close> and \<^verbatim>\<open>handle_api_errors\<close>,
  in their order.
\<close>

definition reclassify :: "exn \<Rightarrow> exn" where
  "reclassify e =
     (case e of
        ConnectionError \<Rightarrow> NoInternetError
      | HTTPError status_code \<Rightarrow>
          if status_code = 401 then ApiTokenError
          else if status_code \<ge> 500 then BpsServerError
          else HTTPError status_code
      | Timeout \<Rightarrow> NoInternetError
      | _ \<Rightarrow> e)"

subsection \<open>\<^verbatim>\<open>list_domains\<close>\<close>

text \<open>\<^verbatim>\<open>CACHE_DURATION = timedelta(days=7)\<close>, in microseconds as the clock is.\<close>

definition CACHE_DURATION :: int where
  "CACHE_DURATION = 7 * 24 * 60 * 60 * 1000000"

text \<open>\<^verbatim>\<open>except (IOError, json.JSONDecodeError)\<close>: the classes this clause catches.\<close>

definition caught_by_cache_read :: "exn \<Rightarrow> bool" where
  "caught_by_cache_read e =
     (case e of
        OSError \<Rightarrow> True
      | HTTPError status_code \<Rightarrow> True
      | ConnectionError \<Rightarrow> True
      | Timeout \<Rightarrow> True
      | JSONDecodeError \<Rightarrow> True
      | _ \<Rightarrow> False)"

text \<open>
  Lines 111-119: the cached table is returned (\<open>Hit\<close>), the function goes on to the
  provider (\<open>Miss\<close>), or an exception that the clause does not catch leaves the function
  (\<open>Surfaced\<close>).
\<close>

datatype 'a cache_outcome = Hit 'a | Miss | Surfaced exn

definition read_domain_cache :: "'v env \<Rightarrow> 's world \<Rightarrow> 'v dataframe cache_outcome" where
  "read_domain_cache env w =
     (case files w (cache_file env) of
        None \<Rightarrow> Miss
      | Some f \<Rightarrow>
          if clock w - mtime f < CACHE_DURATION then
            (case load_frame env (content f) of
               Inr data \<Rightarrow> Hit data
             | Inl e \<Rightarrow> if caught_by_cache_read e then Miss else Surfaced e)
          else Miss)"

text \<open>
  Lines 121-144. \<^verbatim>\<open>df.empty\<close> on a result that is not a table raises
  \<^verbatim>\<open>AttributeError\<close>, which no clause of the \<^verbatim>\<open>try\<close> catches. The write of the
  cache is inside the same \<^verbatim>\<open>try\<close>: when it raises, the call raises.
\<close>

definition fetch_domains ::
  "'v env \<Rightarrow> ('s, 'v) client option \<Rightarrow> 's world \<Rightarrow> (exn + 'v dataframe) \<times> 's world" where
  "fetch_domains env client w =
     (case client of
        None \<Rightarrow> (Inl ApiTokenError, w)
      | Some c \<Rightarrow>
          (case api_call_with_retry (list_domain c) w of
             (Inl e, w') \<Rightarrow> (Inl (reclassify e), w')
           | (Inr (NotFrame x), w') \<Rightarrow> (Inl AttributeError, w')
           | (Inr (Frame df), w') \<Rightarrow>
               if \<not> df_empty df then
                 (case write_file (cache_file env) (write_cache env df (cache_file env)) w' of
                    (Some e, w'') \<Rightarrow> (Inl (reclassify e), w'')
                  | (None, w'') \<Rightarrow> (Inr df, w''))
               else (Inr df, w')))"

definition list_domains ::
  "'v env \<Rightarrow> ('s, 'v) client option \<Rightarrow> 's world \<Rightarrow> (exn + 'v dataframe) \<times> 's world" where
  "list_domains env client w =
     (case read_domain_cache env w of
        Hit data \<Rightarrow> (Inr data, w)
      | Surfaced e \<Rightarrow> (Inl e, w)
      | Miss \<Rightarrow> fetch_domains env client w)"

subsection \<open>\<^verbatim>\<open>handle_api_errors\<close> and \<^verbatim>\<open>view_static_table\<close>\<close>

text \<open>The decorator: the readiness check, then the wrapped coroutine under the clauses.\<close>

definition handle_api_errors ::
  "('s, 'v) client option \<Rightarrow> (('s, 'v) client \<Rightarrow> 's world \<Rightarrow> (exn + 'a) \<times> 's world)
     \<Rightarrow> 's world \<Rightarrow> (exn + 'a) \<times> 's world" where
  "handle_api_errors client func w =
     (case client of
        None \<Rightarrow> (Inl ApiTokenError, w)
      | Some c \<Rightarrow>
          (case func c w of
             (Inl e, w') \<Rightarrow> (Inl (reclassify e), w')
           | (Inr r, w') \<Rightarrow> (Inr r, w')))"

definition view_static_table ::
  "('s, 'v) client option \<Rightarrow> string \<Rightarrow> string \<Rightarrow> 's world \<Rightarrow> (exn + 'v dataframe) \<times> 's world" where
  "view_static_table client domain_id table_id =
     handle_api_errors client (\<lambda>c w.
       case api_call_with_retry (view_statictable c domain_id table_id) w of
         (Inl e, w') \<Rightarrow> (Inl e, w')
       | (Inr (NotFrame x), w') \<Rightarrow> (Inl BpsApiDataError, w')
       | (Inr (Frame result), w') \<Rightarrow>
           if df_empty result then (Inl BpsApiDataError, w') else (Inr result, w'))"

subsection \<open>\<^verbatim>\<open>download_table\<close>\<close>

text \<open>Lines 374-380: the destination path.\<close>

definition dest_path :: "'v env \<Rightarrow> string \<Rightarrow> string" where
  "dest_path env filename =
     (let base_path = (case download_path env of
                         None \<Rightarrow> cwd env
                       | Some config_path \<Rightarrow>
                           if config_path \<noteq> [] \<and> is_dir env config_path then config_path
                           else cwd env)
      in joinpath env base_path filename)"

text \<open>\<^verbatim>\<open>filepath.exists()\<close>: the path names a file of the world.\<close>

definition path_exists :: "'s world \<Rightarrow> string \<Rightarrow> bool" where
  "path_exists w path = (files w path \<noteq> None)"

text \<open>After a writer: its exception is raised, or the path is returned (line 394).\<close>

definition after_write :: "string \<Rightarrow> exn option \<times> 's world \<Rightarrow> (exn + string) \<times> 's world" where
  "after_write filepath r = (case r of (Some e, w) \<Rightarrow> (Inl e, w) | (None, w) \<Rightarrow> (Inr filepath, w))"

definition download_table ::
  "'v env \<Rightarrow> ('s, 'v) client option \<Rightarrow> string \<Rightarrow> string \<Rightarrow> string \<Rightarrow> string \<Rightarrow> bool
     \<Rightarrow> 's world \<Rightarrow> (exn + string) \<times> 's world" where
  "download_table env client domain_id table_id filename format overwrite w =
     (if \<not> is_ready client then (Inl ApiTokenError, w)
      else
        (case view_static_table client domain_id table_id w of
           (Inl e, w') \<Rightarrow> (Inl e, w')
         | (Inr df, w') \<Rightarrow>
             if df_empty df then (Inl PlainException, w')
             else
               (let df_clean = clean_bps_dataframe df;
                    filepath = dest_path env filename
                in if path_exists w' filepath \<and> \<not> overwrite then
                     (Inl (FileExistsError filepath), w')
                   else if format = ''csv'' then
                     after_write filepath (write_file filepath (to_csv env df_clean filepath) w')
                   else if format = ''xlsx'' then
                     after_write filepath (write_file filepath (to_excel env df_clean filepath) w')
                   else if format = ''json'' then
                     after_write filepath (write_file filepath (to_json env df_clean filepath) w')
                   else (Inl ValueError, w'))))"

subsection \<open>\<^verbatim>\<open>get_dynamic_table_metadata\<close>\<close>

text \<open>\<^verbatim>\<open>sub in s\<close> for strings.\<close>

fun py_contains :: "string \<Rightarrow> string \<Rightarrow> bool" where
  "py_contains sub [] = (sub = [])"
| "py_contains sub (c # s) = (take (length sub) (c # s) = sub \<or> py_contains sub s)"

text \<open>
  \<^verbatim>\<open>if src in item: ... item[src]\<close> for one source field: the value when the item
  is an object that has the field, nothing when it has not. On an item that is not an
  object, \<^verbatim>\<open>in\<close> is the substring or membership test of Python, \<^verbatim>\<open>item[src]\<close>
  raises \<^verbatim>\<open>TypeError\<close> after a successful test, and the test itself raises
  \<^verbatim>\<open>TypeError\<close> on a number, a boolean or \<^verbatim>\<open>None\<close>.
\<close>

definition item_field :: "json \<Rightarrow> string \<Rightarrow> exn + json option" where
  "item_field item src =
     (case item of
        JObj d \<Rightarrow> Inr (map_of d src)
      | JStr s \<Rightarrow> if py_contains src s then Inl TypeError else Inr None
      | JArr xs \<Rightarrow> if JStr src \<in> set xs then Inl TypeError else Inr None
      | _ \<Rightarrow> Inl TypeError)"

text \<open>The loop over \<^verbatim>\<open>mapping.items()\<close> that builds \<^verbatim>\<open>new_item\<close>.\<close>

fun new_item :: "(string \<times> string) list \<Rightarrow> json \<Rightarrow> exn + (string \<times> json) list" where
  "new_item [] item = Inr []"
| "new_item ((src, dst) # mapping) item =
     (case item_field item src of
        Inl e \<Rightarrow> Inl e
      | Inr None \<Rightarrow> new_item mapping item
      | Inr (Some v) \<Rightarrow>
          (case new_item mapping item of
             Inl e \<Rightarrow> Inl e
           | Inr rest \<Rightarrow> Inr ((dst, v) # rest)))"

text \<open>The loop over \<^verbatim>\<open>data[1]\<close>: an empty \<^verbatim>\<open>new_item\<close> is not appended.\<close>

fun collect_items ::
  "(string \<times> string) list \<Rightarrow> json list \<Rightarrow> exn + (string \<times> json) list list" where
  "collect_items mapping [] = Inr []"
| "collect_items mapping (item # rest) =
     (case new_item mapping item of
        Inl e \<Rightarrow> Inl e
      | Inr n \<Rightarrow>
          (case collect_items mapping rest of
             Inl e \<Rightarrow> Inl e
           | Inr items \<Rightarrow> Inr (if n \<noteq> [] then n # items else items)))"

text \<open>
  \<^verbatim>\<open>extract_list\<close>. \<^verbatim>\<open>data_json.get\<close> raises \<^verbatim>\<open>AttributeError\<close> when the
  response is not an object.
\<close>

definition extract_list ::
  "json \<Rightarrow> (string \<times> string) list \<Rightarrow> exn + (string \<times> json) list list" where
  "extract_list data_json mapping =
     (case data_json of
        JObj d \<Rightarrow>
          if map_of d ''data-availability'' \<noteq> Some (JStr ''available'') then Inr []
          else
            (case (case map_of d ''data'' of None \<Rightarrow> JArr [] | Some x \<Rightarrow> x) of
               JArr [meta, JArr items] \<Rightarrow> collect_items mapping items
             | _ \<Rightarrow> Inr [])
      | _ \<Rightarrow> Inl AttributeError)"

definition vervar_mapping :: "(string \<times> string) list" where
  "vervar_mapping =
     [(''item_ver_id'', ''id''), (''vervar'', ''label''), (''kode_ver_id'', ''code''),
      (''group_ver_id'', ''group''), (''name_group_ver_id'', ''group_name'')]"

definition turvar_mapping :: "(string \<times> string) list" where
  "turvar_mapping =
     [(''turvar_id'', ''id''), (''turvar'', ''label''), (''group_turvar_id'', ''group''),
      (''name_group_turvar'', ''group_name'')]"

definition th_mapping :: "(string \<times> string) list" where
  "th_mapping = [(''th_id'', ''id''), (''th'', ''label'')]"

definition turth_mapping :: "(string \<times> string) list" where
  "turth_mapping =
     [(''turth_id'', ''id''), (''turth'', ''label''), (''group_turth_id'', ''group''),
      (''name_group_turth'', ''group_name'')]"

text \<open>Lines 255-257: a \<open>label\<close> that is a string is unescaped and stripped.\<close>

definition clean_label :: "'v env \<Rightarrow> (string \<times> json) list \<Rightarrow> (string \<times> json) list" where
  "clean_label env item =
     map (\<lambda>(k, v). if k = ''label'' then
                      (case v of JStr s \<Rightarrow> (k, JStr (py_strip (unescape env s))) | _ \<Rightarrow> (k, v))
                    else (k, v)) item"

record metadata =
  vertical_vars :: "(string \<times> json) list list"
  horizontal_vars :: "(string \<times> json) list list"
  years :: "(string \<times> json) list list"
  derived_years :: "(string \<times> json) list list"
  source_domain :: string

text \<open>
  \<^verbatim>\<open>asyncio.gather\<close> of the four lookups: all four are issued, and the call raises
  when one of them raises (the model takes the first in the order of the arguments).
\<close>

definition the_models :: "string list" where
  "the_models = [''vervar'', ''turvar'', ''th'', ''turth'']"

definition gather4 :: "(exn + json) list \<Rightarrow> exn + json list" where
  "gather4 rs =
     (case filter isl rs of
        Inl e # _ \<Rightarrow> Inl e
      | _ \<Rightarrow> Inr (map projr rs))"

definition fetch_for_domain ::
  "'v env \<Rightarrow> string \<Rightarrow> string \<Rightarrow> string \<Rightarrow> 's world \<Rightarrow> (exn + metadata) \<times> 's world" where
  "fetch_for_domain env var_id token target_domain w =
     (let w' = w\<lparr>http_log := http_log w @ map (\<lambda>model. (target_domain, model)) the_models\<rparr>;
          responses = map (\<lambda>model. http_get env target_domain var_id model token) the_models
      in (case gather4 responses of
            Inl e \<Rightarrow> (Inl e, w')
          | Inr jsons \<Rightarrow>
              (case extract_list (jsons ! 0) vervar_mapping of
                 Inl e \<Rightarrow> (Inl e, w')
               | Inr vertical \<Rightarrow>
              (case extract_list (jsons ! 1) turvar_mapping of
                 Inl e \<Rightarrow> (Inl e, w')
               | Inr horizontal \<Rightarrow>
              (case extract_list (jsons ! 2) th_mapping of
                 Inl e \<Rightarrow> (Inl e, w')
               | Inr ys \<Rightarrow>
              (case extract_list (jsons ! 3) turth_mapping of
                 Inl e \<Rightarrow> (Inl e, w')
               | Inr derived \<Rightarrow>
                   (Inr \<lparr>vertical_vars = map (clean_label env) vertical,
                         horizontal_vars = map (clean_label env) horizontal,
                         years = map (clean_label env) ys,
                         derived_years = map (clean_label env) derived,
                         source_domain = target_domain\<rparr>, w')))))))"

text \<open>The three lists that a usable result needs (the tests of lines 270, 274 and 278).\<close>

definition complete :: "metadata \<Rightarrow> bool" where
  "complete m = (vertical_vars m \<noteq> [] \<and> horizontal_vars m \<noteq> [] \<and> years m \<noteq> [])"

text \<open>Lines 269-276: the fallback to domain 0000.\<close>

definition resolve_fallback ::
  "'v env \<Rightarrow> string \<Rightarrow> string \<Rightarrow> string \<Rightarrow> metadata \<Rightarrow> 's world \<Rightarrow> (exn + metadata) \<times> 's world" where
  "resolve_fallback env var_id token domain_id m w =
     (if \<not> complete m \<and> domain_id \<noteq> ''0000'' then
        (case fetch_for_domain env var_id token ''0000'' w of
           (Inl e, w') \<Rightarrow> (Inl e, w')
         | (Inr fallback_metadata, w') \<Rightarrow>
             if complete fallback_metadata then
               (Inr (fallback_metadata\<lparr>source_domain := ''0000''\<rparr>), w')
             else (Inr m, w'))
      else (Inr m, w))"

definition get_dynamic_table_metadata ::
  "'v env \<Rightarrow> ('s, 'v) client option \<Rightarrow> string \<Rightarrow> string \<Rightarrow> 's world \<Rightarrow> (exn + metadata) \<times> 's world" where
  "get_dynamic_table_metadata env client domain_id var_id =
     handle_api_errors client (\<lambda>c w.
       case load_token env of
         None \<Rightarrow> (Inl ApiTokenError, w)
       | Some token \<Rightarrow>
           if token = [] then (Inl ApiTokenError, w)
           else
             (case fetch_for_domain env var_id token domain_id w of
                (Inl e, w1) \<Rightarrow> (Inl e, w1)
              | (Inr m, w1) \<Rightarrow>
                  (case resolve_fallback env var_id token domain_id m w1 of
                     (Inl e, w2) \<Rightarrow> (Inl e, w2)
                   | (Inr m', w2) \<Rightarrow>
                       if \<not> complete m' then (Inl BpsApiDataError, w2) else (Inr m', w2))))"

subsection \<open>Sample inputs and auxiliary predicates\<close>

definition named :: "label \<Rightarrow> bool" where
  "named x = (\<exists>s. x = LStr s \<and> s \<noteq> [])"

text \<open>A table with a blank header, a missing header, an integer header and an empty row.\<close>

definition sample_table :: "nat dataframe" where
  "sample_table =
     \<lparr>df_columns = Index [LStr ''Provinsi'', LStr [], LMissing, LInt 2023],
      df_rows = [(LInt 5, [Some 11, None, None, None]),
                 (LInt 7, [None, None, None, None]),
                 (LStr ''x'', [None, Some 20000, None, None])]\<rparr>"

text \<open>An environment, a client and worlds to evaluate the operations on.\<close>

definition env0 :: "nat env" where
  "env0 =
     \<lparr>cache_file = ''domain_cache.json'',
      load_token = Some ''token'',
      download_path = None,
      is_dir = (\<lambda>p. False),
      cwd = ''/home/user'',
      joinpath = (\<lambda>d n. d @ ''/'' @ n),
      load_frame = (\<lambda>s. if s = ''[cached]'' then Inr sample_table
                         else if s = [CHR 0xFF, CHR 0xFE] then Inl ValueError
                         else Inl JSONDecodeError),
      write_cache = (\<lambda>df p. if p = ''domain_cache.json'' then Written ''[json]''
                            else WriteFailed OSError None),
      to_json = (\<lambda>df p. Written ''[json]''),
      to_csv = (\<lambda>df p. Written ''csv''),
      to_excel = (\<lambda>df p. Written ''xlsx''),
      http_get = (\<lambda>d v m k. Inl ConnectionError),
      unescape = (\<lambda>s. s)\<rparr>"

definition client0 :: "((exn + nat api_result) list, nat) client" where
  "client0 = \<lparr>list_domain = scripted, view_statictable = (\<lambda>d t. scripted)\<rparr>"

definition cached_world :: "string \<Rightarrow> int \<Rightarrow> int \<Rightarrow> 's \<Rightarrow> 's world" where
  "cached_world text written now s =
     (world0 s)\<lparr>files := (\<lambda>p. None)(''domain_cache.json'' \<mapsto> \<lparr>content = text, mtime = written\<rparr>),
               clock := now\<rparr>"

text \<open>A world where the destination of the export exists, and a provider with a table.\<close>

definition export_world :: "'s \<Rightarrow> 's world" where
  "export_world s =
     (world0 s)\<lparr>files := (\<lambda>p. None)(''/home/user/padi.csv'' \<mapsto> \<lparr>content = ''old bytes'', mtime = 3\<rparr>),
               clock := 10\<rparr>"

text \<open>
  A keyed endpoint for the evaluations: variable 45 has its lists at domain 0000 only
  (and no derived years there), every other lookup answers that nothing is available.
\<close>

definition not_available :: json where
  "not_available = JObj [(''data-availability'', JStr ''list-not-available'')]"

definition sample_lists :: json where
  "sample_lists =
     JObj [(''status'', JStr ''OK''),
           (''data-availability'', JStr ''available''),
           (''data'', JArr [JObj [(''page'', JNum 1)],
                           JArr [JObj [(''item_ver_id'', JNum 1), (''vervar'', JStr '' Aceh ''),
                                       (''turvar_id'', JNum 2), (''turvar'', JStr ''Jumlah''),
                                       (''th_id'', JNum 123), (''th'', JStr ''2023''),
                                       (''unit'', JNull)]]])]"

definition sample_http :: "string \<Rightarrow> string \<Rightarrow> string \<Rightarrow> string \<Rightarrow> exn + json" where
  "sample_http d v model k =
     (if d = ''0000'' \<and> v = ''45'' \<and> model \<noteq> ''turth'' then Inr sample_lists
      else Inr not_available)"

definition env1 :: "nat env" where
  "env1 = env0\<lparr>http_get := sample_http\<rparr>"

definition empty_metadata :: "string \<Rightarrow> metadata" where
  "empty_metadata d =
     \<lparr>vertical_vars = [], horizontal_vars = [], years = [], derived_years = [],
      source_domain = d\<rparr>"

definition national_metadata :: metadata where
  "national_metadata =
     \<lparr>vertical_vars = [[(''id'', JNum 1), (''label'', JStr ''Aceh'')]],
      horizontal_vars = [[(''id'', JNum 2), (''label'', JStr ''Jumlah'')]],
      years = [[(''id'', JNum 123), (''label'', JStr ''2023'')]],
      derived_years = [],
      source_domain = ''0000''\<rparr>"

section \<open>Theorems\<close>

lemma upt_max_retries: "[0..<max_retries] = [0, 1, 2]"
  by (simp add: max_retries_def upt_rec)

lemma api_call_with_retry_attempts:
  "api_call_with_retry api_function w = retry_loop api_function [0, 1, 2] w"
  by (simp only: api_call_with_retry_def upt_max_retries)

text \<open>
  Three HTTP 429 in a row from any operation: the third is raised again, after 3
  invocations and the delays 1 and 2.
\<close>

lemma retry_three_429:
  assumes "f (provider w) = (Inl (HTTPError 429), s1)"
    and "f s1 = (Inl (HTTPError 429), s2)"
    and "f s2 = (Inl (HTTPError 429), s3)"
  shows "api_call_with_retry f w =
     (Inl (HTTPError 429), w\<lparr>provider := s3, calls := calls w + 3, sleeps := sleeps w @ [1, 2]\<rparr>)"
  using assms
  by (simp add: api_call_with_retry_attempts to_thread_def sleep_def
      max_retries_def base_delay_def)

text \<open>
  The statement after the loop (line 106) is not reached: when the invoker fails with
  \<open>BpsServerError\<close>, the operation itself raised it.
\<close>

lemma api_call_with_retry_BpsServerError:
  assumes "api_call_with_retry f w = (Inl BpsServerError, w')"
  shows "\<exists>s s'. f s = (Inl BpsServerError, s')"
proof (rule ccontr)
  assume n: "\<not> (\<exists>s s'. f s = (Inl BpsServerError, s'))"
  obtain r1 s1 where f1: "f (provider w) = (r1, s1)" by (cases "f (provider w)")
  obtain r2 s2 where f2: "f s1 = (r2, s2)" by (cases "f s1")
  obtain r3 s3 where f3: "f s2 = (r3, s3)" by (cases "f s2")
  from n f1 f2 f3 have "r1 \<noteq> Inl BpsServerError" "r2 \<noteq> Inl BpsServerError"
    "r3 \<noteq> Inl BpsServerError"
    by auto
  with assms f1 f2 f3 show False
    by (auto simp: api_call_with_retry_attempts to_thread_def sleep_def max_retries_def
        split: sum.splits exn.splits if_splits)
qed

text \<open>
  C1. A provider operation that raises HTTP 429 at each of the 3 attempts: the invoker
  invokes it 3 times and no 4th time, sleeps 1 and 2, and the third HTTP 429 is raised
  again as it is (the \<^verbatim>\<open>raise\<close> of line 102). It does not fail with \<open>BpsServerError\<close>:
  the statement after the loop is never reached.
\<close>

theorem retry_all_429_reraises:
  "api_call_with_retry always_429 (w :: unit world) =
     (Inl (HTTPError 429) :: exn + 'a, w\<lparr>calls := calls w + 3, sleeps := sleeps w @ [1, 2]\<rparr>)
   \<and> fst (api_call_with_retry always_429 w :: (exn + 'a) \<times> unit world) \<noteq> Inl BpsServerError"
  by (simp add: api_call_with_retry_attempts to_thread_def sleep_def always_429_def
      max_retries_def base_delay_def)

text \<open>
  C2. A provider operation that raises HTTP 429 at the first two attempts and returns
  \<open>r\<close> at the third: the invoker returns \<open>r\<close>, has slept exactly twice, 1 then 2
  (\<^verbatim>\<open>base_delay * 2 ** attempt\<close>), and has invoked the operation 3 times.
\<close>

theorem retry_two_429_then_success:
  assumes "f (provider w) = (Inl (HTTPError 429), s1)"
    and "f s1 = (Inl (HTTPError 429), s2)"
    and "f s2 = (Inr r, s3)"
  shows "api_call_with_retry f w =
     (Inr r, w\<lparr>provider := s3, calls := calls w + 3, sleeps := sleeps w @ [1, 2]\<rparr>)"
  using assms
  by (simp add: api_call_with_retry_attempts to_thread_def sleep_def
      max_retries_def base_delay_def)

theorem retry_two_429_then_success_witness:
  "api_call_with_retry scripted
     (world0 [Inl (HTTPError 429), Inl (HTTPError 429), Inr (7 :: nat)]) =
   (Inr 7, (world0 [Inl (HTTPError 429), Inl (HTTPError 429), Inr 7])
      \<lparr>provider := [], calls := 3, sleeps := [1, 2]\<rparr>)"
  using retry_two_429_then_success
    [of scripted "world0 [Inl (HTTPError 429), Inl (HTTPError 429), Inr (7 :: nat)]"
      "[Inl (HTTPError 429), Inr 7]" "[Inr 7]" 7 "[]"]
  by (simp add: world0_def)

subsection \<open>The key decoder\<close>

lemma py_slice_nth:
  assumes "j \<le> length s"
  shows "py_slice i j s = map ((!) s) [i..<j]"
proof (rule nth_equalityI)
  show "length (py_slice i j s) = length (map ((!) s) [i..<j])"
    using assms by (simp add: py_slice_def)
next
  fix k assume "k < length (py_slice i j s)"
  then show "py_slice i j s ! k = map ((!) s) [i..<j] ! k"
    using assms by (simp add: py_slice_def)
qed

lemma py_slice_length: "length (py_slice i j s) = min (j - i) (length s - i)"
  by (simp add: py_slice_def)

lemma py_slice_append:
  "i \<le> j \<Longrightarrow> j \<le> k \<Longrightarrow> py_slice i j s @ py_slice j k s = py_slice i k s"
proof -
  assume a: "i \<le> j" "j \<le> k"
  have "take (j - i) (drop i s) @ take (k - j) (drop (j - i) (drop i s)) = take ((j - i) + (k - j)) (drop i s)"
    by (simp add: take_add)
  then show ?thesis using a by (simp add: py_slice_def)
qed

text \<open>
  C5. For a key of length at least 19 the decoder returns the six segments at the
  half-open ranges [0,4), [4,6), [6,8), [8,13), [13,16), [16,19) of the key, character by
  character.
\<close>

theorem decode_datacontent_key_ranges:
  assumes "19 \<le> length key"
  shows "decode_datacontent_key key =
     [(''domain'', map ((!) key) [0..<4]),
      (''year'', map ((!) key) [4..<6]),
      (''vertical_group'', map ((!) key) [6..<8]),
      (''vertical_item'', map ((!) key) [8..<13]),
      (''horizontal'', map ((!) key) [13..<16]),
      (''derived'', map ((!) key) [16..<19])]"
  using assms by (simp add: decode_datacontent_key_def py_slice_nth)

theorem decode_datacontent_key_ranges_witness:
  "19 \<le> length ''0000230100001001000'' \<and>
   decode_datacontent_key ''0000230100001001000'' =
     [(''domain'', ''0000''), (''year'', ''23''), (''vertical_group'', ''01''),
      (''vertical_item'', ''00001''), (''horizontal'', ''001''), (''derived'', ''000'')]"
  using decode_datacontent_key_ranges [of "''0000230100001001000''"]
  by (simp add: upt_rec)

text \<open>
  C10. The decoder is defined on every key: it returns a dictionary with exactly the six
  fields \<open>domain\<close>, \<open>year\<close>, \<open>vertical_group\<close>, \<open>vertical_item\<close>, \<open>horizontal\<close>,
  \<open>derived\<close>; each segment has the length its range leaves inside the key (shorter or
  empty when the key is shorter than 19), and the segments together are the first 19
  characters of the key.
\<close>

theorem decode_datacontent_key_total:
  "map fst (decode_datacontent_key key) =
     [''domain'', ''year'', ''vertical_group'', ''vertical_item'', ''horizontal'', ''derived'']
   \<and> map (length \<circ> snd) (decode_datacontent_key key) =
     [min 4 (length key), min 2 (length key - 4), min 2 (length key - 6),
      min 5 (length key - 8), min 3 (length key - 13), min 3 (length key - 16)]
   \<and> concat (map snd (decode_datacontent_key key)) = take 19 key"
proof -
  have "py_slice 0 4 key @ py_slice 4 6 key @ py_slice 6 8 key @ py_slice 8 13 key
          @ py_slice 13 16 key @ py_slice 16 19 key = py_slice 0 19 key"
    by (simp add: py_slice_append)
  then show ?thesis
    by (simp add: decode_datacontent_key_def py_slice_length) (simp add: py_slice_def)
qed


subsection \<open>Normalisation of a table\<close>

lemma str_nat_nonempty: "str_nat n \<noteq> []"
  by (subst str_nat.simps) simp

lemma str_label_nonempty: "x \<noteq> LStr [] \<Longrightarrow> str_label x \<noteq> []"
  by (cases x) (simp_all add: str_label_def str_int_def str_nat_nonempty)

lemma rename_col_named: "named (rename_col i col)"
  by (simp add: named_def rename_col_def str_label_nonempty)

lemma rename_col_of_named: "named col \<Longrightarrow> rename_col i col = col"
  by (auto simp: named_def rename_col_def isna_def str_label_def)

lemma rename_columns_named: "list_all named (rename_columns cols)"
  by (auto simp: rename_columns_def list_all_iff rename_col_named)

lemma rename_enumerate_of_named:
  "list_all named cols \<Longrightarrow> map (\<lambda>(i, col). rename_col i col) (enumerate n cols) = cols"
  by (induction cols arbitrary: n) (simp_all add: rename_col_of_named)

lemma rename_columns_idem: "rename_columns (rename_columns cols) = rename_columns cols"
  using rename_enumerate_of_named [OF rename_columns_named, of 0 cols]
  by (simp add: rename_columns_def)

lemma map_snd_reset_enumerate:
  "map snd (map (\<lambda>(i, r). (LInt (int i), snd r)) (enumerate n rs)) = map snd rs"
  by (induction rs arbitrary: n) simp_all

lemma reset_enumerate_cong:
  "map snd rs = map snd rs' \<Longrightarrow>
   map (\<lambda>(i, r). (LInt (int i), snd r)) (enumerate n rs) =
   map (\<lambda>(i, r). (LInt (int i), snd r)) (enumerate n rs')"
proof (induction rs arbitrary: n rs')
  case Nil
  then show ?case by simp
next
  case (Cons r rs)
  then obtain r' rs'' where "rs' = r' # rs''" by (cases rs') auto
  with Cons show ?case by simp
qed

lemma reset_index_idem: "reset_index (reset_index rs) = reset_index rs"
proof -
  have "map snd (reset_index rs) = map snd rs"
    unfolding reset_index_def by (rule map_snd_reset_enumerate)
  from reset_enumerate_cong [OF this, of 0] show ?thesis
    by (simp add: reset_index_def)
qed

lemma dropna_reset_enumerate:
  "list_all (\<lambda>r. \<not> list_all (\<lambda>c. c = None) (snd r)) rs \<Longrightarrow>
   dropna_all (map (\<lambda>(i, r). (LInt (int i), snd r)) (enumerate n rs)) =
   map (\<lambda>(i, r). (LInt (int i), snd r)) (enumerate n rs)"
  by (induction rs arbitrary: n) (simp_all add: dropna_all_def)

lemma dropna_reset_dropna:
  "dropna_all (reset_index (dropna_all rs)) = reset_index (dropna_all rs)"
proof -
  have "list_all (\<lambda>r. \<not> list_all (\<lambda>c. c = None) (snd r)) (dropna_all rs)"
    by (simp add: dropna_all_def list_all_iff)
  then show ?thesis
    by (simp add: reset_index_def dropna_reset_enumerate)
qed

lemma clean_bps_dataframe_idem:
  "clean_bps_dataframe (clean_bps_dataframe df) = clean_bps_dataframe df"
  by (simp add: clean_bps_dataframe_def Let_def rename_columns_idem dropna_reset_dropna
      reset_index_idem)

lemma str_nat_digit: "n < 10 \<Longrightarrow> str_nat n = [digit_char n]"
  by (subst str_nat.simps) simp

lemma str_nat_2023: "str_nat 2023 = ''2023''"
  by (subst str_nat.simps, simp, subst str_nat.simps, simp, subst str_nat.simps, simp)
    (simp add: str_nat_digit digit_char_def)

lemma clean_sample_table:
  "clean_bps_dataframe sample_table =
     \<lparr>df_columns = Index [LStr ''Provinsi'', LStr ''Unnamed_1'', LStr ''Unnamed_2'', LStr ''2023''],
      df_rows = [(LInt 0, [Some 11, None, None, None]),
                 (LInt 1, [None, Some 20000, None, None])]\<rparr>"
  by (simp add: clean_bps_dataframe_def sample_table_def rename_columns_def rename_col_def
      isna_def str_label_def str_int_def str_nat_2023 str_nat_digit digit_char_def
      dropna_all_def reset_index_def)

lemma flatten_col_example:
  "flatten_col [LStr ''Luas Panen'', LMissing, LStr ''nan'', LInt 2023] = ''Luas Panen 2023''
   \<and> flatten_col [LStr '' '', LMissing] = []"
  by (simp add: flatten_col_def isna_def str_label_def str_int_def str_nat_2023 py_strip_def
      is_space_def)

text \<open>
  C8. Normalising an already-flat, non-empty table twice gives the same table as
  normalising it once.
\<close>

theorem clean_bps_dataframe_idempotent:
  assumes "is_flat df" and "\<not> df_empty df"
  shows "clean_bps_dataframe (clean_bps_dataframe df) = clean_bps_dataframe df"
  by (rule clean_bps_dataframe_idem)

theorem clean_bps_dataframe_idempotent_witness:
  "is_flat sample_table \<and> \<not> df_empty sample_table \<and>
   clean_bps_dataframe (clean_bps_dataframe sample_table) = clean_bps_dataframe sample_table"
proof -
  have f: "is_flat sample_table"
    by (simp add: is_flat_def sample_table_def)
  have n: "\<not> df_empty sample_table"
    by (simp add: df_empty_def ncols_def sample_table_def)
  from clean_bps_dataframe_idempotent [OF f n] f n show ?thesis by simp
qed


subsection \<open>The domain cache\<close>

text \<open>The invoker invokes the operation at least once, and touches neither file nor clock.\<close>

lemma to_thread_frame:
  "to_thread f w = (r, w') \<Longrightarrow>
     files w' = files w \<and> clock w' = clock w \<and> http_log w' = http_log w \<and> calls w' = Suc (calls w)"
  by (auto simp: to_thread_def split: prod.splits)

lemma retry_loop_frame:
  "retry_loop f attempts w = (r, w') \<Longrightarrow>
     files w' = files w \<and> clock w' = clock w \<and> http_log w' = http_log w \<and> calls w \<le> calls w'
     \<and> (attempts \<noteq> [] \<longrightarrow> calls w < calls w')"
proof (induction attempts arbitrary: w)
  case Nil
  then show ?case by simp
next
  case (Cons attempt rest)
  obtain r1 w1 where t: "to_thread f w = (r1, w1)" by (cases "to_thread f w")
  note fr = to_thread_frame [OF t]
  show ?case
  proof (cases "\<exists>c. r1 = Inl (HTTPError c) \<and> c = 429 \<and> attempt < max_retries - 1")
    case True
    with Cons.prems t
    have "retry_loop f rest (sleep (base_delay * 2 ^ attempt) w1) = (r, w')" by auto
    from Cons.IH [OF this] fr show ?thesis by (simp add: sleep_def)
  next
    case False
    with Cons.prems t have "w' = w1"
      by (auto split: sum.splits exn.splits if_splits)
    with fr show ?thesis by simp
  qed
qed

lemma api_call_with_retry_frame:
  assumes "api_call_with_retry f w = (r, w')"
  shows "files w' = files w" and "clock w' = clock w" and "http_log w' = http_log w"
    and "calls w < calls w'"
  using retry_loop_frame [of f "[0, 1, 2]" w r w'] assms
  by (simp_all add: api_call_with_retry_attempts)

lemma fetch_domains_invokes:
  "provider (snd (fetch_domains env (Some c) w)) =
     provider (snd (api_call_with_retry (list_domain c) w))
   \<and> calls (snd (fetch_domains env (Some c) w)) =
     calls (snd (api_call_with_retry (list_domain c) w))
   \<and> calls w < calls (snd (fetch_domains env (Some c) w))"
proof -
  obtain r w' where a: "api_call_with_retry (list_domain c) w = (r, w')"
    by (cases "api_call_with_retry (list_domain c) w")
  from api_call_with_retry_frame(4) [OF a] a show ?thesis
    by (auto simp: fetch_domains_def write_file_def put_file_def
        split: sum.splits api_result.splits write_outcome.splits option.splits)
qed

text \<open>
  C3. A cache file younger than 7 days whose content is read successfully: the cached
  table is returned and the world is as before, so no provider operation was invoked.
\<close>

theorem list_domains_fresh_cache:
  assumes "files w (cache_file env) = Some f"
    and "clock w - mtime f < CACHE_DURATION"
    and "load_frame env (content f) = Inr data"
  shows "list_domains env client w = (Inr data, w)
         \<and> calls (snd (list_domains env client w)) = calls w"
  using assms by (simp add: list_domains_def read_domain_cache_def)

theorem list_domains_fresh_cache_witness:
  "list_domains env0 (Some client0)
     (cached_world ''[cached]'' 0 (CACHE_DURATION - 1) [Inr (Frame sample_table)]) =
   (Inr sample_table, cached_world ''[cached]'' 0 (CACHE_DURATION - 1) [Inr (Frame sample_table)])"
  using list_domains_fresh_cache
    [of "cached_world ''[cached]'' 0 (CACHE_DURATION - 1) [Inr (Frame sample_table)]" env0
      "\<lparr>content = ''[cached]'', mtime = 0\<rparr>" sample_table "Some client0"]
  by (simp add: cached_world_def world0_def env0_def)

text \<open>
  C9. The same with a client that is not ready (no credential): the cached table is
  returned and \<open>ApiTokenError\<close> is not raised, since the cache is read before the
  readiness check.
\<close>

theorem list_domains_fresh_cache_not_ready:
  assumes "\<not> is_ready client"
    and "files w (cache_file env) = Some f"
    and "clock w - mtime f < CACHE_DURATION"
    and "load_frame env (content f) = Inr data"
  shows "list_domains env client w = (Inr data, w)
         \<and> fst (list_domains env client w) \<noteq> Inl ApiTokenError"
  using assms by (simp add: list_domains_def read_domain_cache_def)

theorem list_domains_fresh_cache_not_ready_witness:
  "\<not> is_ready (None :: (unit, nat) client option) \<and>
   list_domains env0 (None :: (unit, nat) client option) (cached_world ''[cached]'' 0 1000 ()) =
   (Inr sample_table, cached_world ''[cached]'' 0 1000 ())"
  using list_domains_fresh_cache_not_ready
    [of "None :: (unit, nat) client option" "cached_world ''[cached]'' 0 1000 ()" env0
      "\<lparr>content = ''[cached]'', mtime = 0\<rparr>" sample_table]
  by (simp add: cached_world_def world0_def env0_def is_ready_def CACHE_DURATION_def)

text \<open>
  What holds of a cache miss. With a ready client, a cache file that is missing, at least
  7 days old, or whose reading raises \<^verbatim>\<open>IOError\<close> or \<^verbatim>\<open>json.JSONDecodeError\<close> is a
  miss: the call is the fetch of lines 121-144; the provider's state and the number of
  invocations after the call are those of the retrying invoker run on the provider's
  domain listing, which invokes it at least once; and when the listing returns a
  non-empty table the cache file is written, and the table is returned unless the write
  raised.
\<close>

lemma list_domains_miss_fetches:
  assumes "is_ready client"
    and "files w (cache_file env) = None \<or>
         (\<exists>f. files w (cache_file env) = Some f \<and>
            (CACHE_DURATION \<le> clock w - mtime f \<or>
             (\<exists>e. load_frame env (content f) = Inl e \<and> caught_by_cache_read e)))"
  shows "list_domains env client w = fetch_domains env client w
       \<and> provider (snd (list_domains env client w)) =
           provider (snd (api_call_with_retry (list_domain (the client)) w))
       \<and> calls (snd (list_domains env client w)) =
           calls (snd (api_call_with_retry (list_domain (the client)) w))
       \<and> calls w < calls (snd (list_domains env client w))
       \<and> (\<forall>df w'. api_call_with_retry (list_domain (the client)) w = (Inr (Frame df), w')
              \<and> \<not> df_empty df \<longrightarrow>
            list_domains env client w =
              (case write_file (cache_file env) (write_cache env df (cache_file env)) w' of
                 (Some e, w'') \<Rightarrow> (Inl (reclassify e), w'')
               | (None, w'') \<Rightarrow> (Inr df, w'')))"
proof -
  from assms(1) obtain c where c: "client = Some c"
    by (auto simp: is_ready_def)
  from assms(2) have m: "read_domain_cache env w = Miss"
    by (auto simp: read_domain_cache_def)
  then have 1: "list_domains env client w = fetch_domains env client w"
    by (simp add: list_domains_def)
  have 2: "provider (snd (list_domains env client w)) =
           provider (snd (api_call_with_retry (list_domain (the client)) w))
       \<and> calls (snd (list_domains env client w)) =
           calls (snd (api_call_with_retry (list_domain (the client)) w))
       \<and> calls w < calls (snd (list_domains env client w))"
    unfolding 1 unfolding c using fetch_domains_invokes [of env c w] by simp
  have 3: "\<forall>df w'. api_call_with_retry (list_domain (the client)) w = (Inr (Frame df), w')
              \<and> \<not> df_empty df \<longrightarrow>
            list_domains env client w =
              (case write_file (cache_file env) (write_cache env df (cache_file env)) w' of
                 (Some e, w'') \<Rightarrow> (Inl (reclassify e), w'')
               | (None, w'') \<Rightarrow> (Inr df, w''))"
    unfolding 1 unfolding c by (simp add: fetch_domains_def)
  from 1 2 3 show ?thesis by blast
qed

text \<open>
  A ready client and a cache file that is not JSON: the provider's listing is fetched and
  the cache file rewritten.
\<close>

lemma list_domains_miss_fetches_example:
  "list_domains env0 (Some client0)
     (cached_world ''{corrupt'' 0 1000 [Inr (Frame sample_table)]) =
   (Inr sample_table,
    (cached_world ''[json]'' 1000 1000 [])\<lparr>calls := 1\<rparr>)"
  by (simp add: list_domains_def read_domain_cache_def fetch_domains_def
      api_call_with_retry_attempts to_thread_def client0_def cached_world_def world0_def
      env0_def caught_by_cache_read_def write_file_def put_file_def df_empty_def ncols_def
      sample_table_def)

text \<open>With no cache file and no credential the call raises \<open>ApiTokenError\<close>.\<close>

lemma list_domains_miss_not_ready:
  "list_domains env0 (None :: (unit, nat) client option) (world0 ()) =
     (Inl ApiTokenError, world0 ())"
  by (simp add: list_domains_def read_domain_cache_def fetch_domains_def world0_def env0_def)

text \<open>
  A failure of the reading that \<^verbatim>\<open>except (IOError, json.JSONDecodeError)\<close> does not
  catch leaves the function: the caller gets it, whatever the client, and the provider
  is not invoked.
\<close>

lemma list_domains_surfaces:
  assumes "files w (cache_file env) = Some f"
    and "clock w - mtime f < CACHE_DURATION"
    and "load_frame env (content f) = Inl e"
    and "\<not> caught_by_cache_read e"
  shows "list_domains env client w = (Inl e, w)"
  using assms by (simp add: list_domains_def read_domain_cache_def)

text \<open>
  A failed write of the cache makes the call raise, though the listing was fetched: the
  cache file of this environment cannot be opened for writing.
\<close>

lemma list_domains_failed_write_raises:
  "list_domains (env0\<lparr>cache_file := ''/readonly/domain_cache.json''\<rparr>) (Some client0)
     (world0 [Inr (Frame sample_table)]) =
   (Inl OSError, (world0 [])\<lparr>calls := 1\<rparr>)"
  by (simp add: list_domains_def read_domain_cache_def fetch_domains_def
      api_call_with_retry_attempts to_thread_def client0_def world0_def env0_def
      write_file_def reclassify_def df_empty_def ncols_def sample_table_def)

text \<open>
  C4. The claim: a cache file that fails to deserialize is a cache miss, the failure is
  never surfaced, and the provider's domain listing is invoked. The code, with a ready
  client and a cache file written a moment ago whose bytes are not text (the reading
  raises \<^verbatim>\<open>UnicodeDecodeError\<close>, a \<^verbatim>\<open>ValueError\<close>): the exception reaches the caller,
  the provider is not invoked and the cache file stays as it was.
\<close>

theorem list_domains_undecodable_cache_surfaces:
  "is_ready (Some client0)
   \<and> list_domains env0 (Some client0)
       (cached_world [CHR 0xFF, CHR 0xFE] 0 1000 [Inr (Frame sample_table)]) =
     (Inl ValueError, cached_world [CHR 0xFF, CHR 0xFE] 0 1000 [Inr (Frame sample_table)])
   \<and> calls (snd (list_domains env0 (Some client0)
       (cached_world [CHR 0xFF, CHR 0xFE] 0 1000 [Inr (Frame sample_table)]))) = 0"
  by (simp add: is_ready_def list_domains_def read_domain_cache_def cached_world_def
      world0_def env0_def caught_by_cache_read_def CACHE_DURATION_def)

subsection \<open>Export\<close>

lemma handle_api_errors_frame:
  assumes "\<And>c w r w'. func c w = (r, w') \<Longrightarrow> files w' = files w"
  shows "files (snd (handle_api_errors client func w)) = files w"
proof (cases client)
  case None
  then show ?thesis by (simp add: handle_api_errors_def)
next
  case (Some c)
  obtain r w' where f: "func c w = (r, w')" by (cases "func c w")
  from assms [OF f] f Some show ?thesis
    by (cases r) (simp_all add: handle_api_errors_def)
qed

lemma view_static_table_frame:
  "files (snd (view_static_table client domain_id table_id w)) = files w"
  unfolding view_static_table_def
proof (rule handle_api_errors_frame)
  fix c :: "('a, 'b) client" and w0 w' :: "'a world" and r :: "exn + 'b dataframe"
  assume a: "(case api_call_with_retry (view_statictable c domain_id table_id) w0 of
         (Inl e, w') \<Rightarrow> (Inl e, w')
       | (Inr (NotFrame x), w') \<Rightarrow> (Inl BpsApiDataError, w')
       | (Inr (Frame result), w') \<Rightarrow>
           if df_empty result then (Inl BpsApiDataError, w') else (Inr result, w')) = (r, w')"
  obtain r1 w1 where b: "api_call_with_retry (view_statictable c domain_id table_id) w0 = (r1, w1)"
    by (cases "api_call_with_retry (view_statictable c domain_id table_id) w0")
  from a b have "w' = w1"
    by (auto split: sum.splits api_result.splits if_splits)
  with api_call_with_retry_frame(1) [OF b] show "files w' = files w0" by simp
qed

text \<open>
  C7, as the code has it. An export with \<^verbatim>\<open>overwrite=False\<close> to a destination that
  exists fails and leaves every file as it was. It fails with \<open>ApiTokenError\<close> when the
  client is not ready, with the error of \<^verbatim>\<open>view_static_table\<close> when the fetch of the
  table fails, and with \<open>FileExistsError\<close> of the destination when the table is fetched.
\<close>

theorem download_table_existing_destination:
  assumes "path_exists w (dest_path env filename)"
  shows "download_table env client domain_id table_id filename format False w =
           (if \<not> is_ready client then (Inl ApiTokenError, w)
            else (case view_static_table client domain_id table_id w of
                    (Inl e, w') \<Rightarrow> (Inl e, w')
                  | (Inr df, w') \<Rightarrow> (Inl (FileExistsError (dest_path env filename)), w')))
       \<and> files (snd (download_table env client domain_id table_id filename format False w)) = files w"
proof -
  obtain r w1 where v: "view_static_table client domain_id table_id w = (r, w1)"
    by (cases "view_static_table client domain_id table_id w")
  have fr: "files w1 = files w"
    using view_static_table_frame [of client domain_id table_id w] v by simp
  then have ex: "path_exists w1 (dest_path env filename)"
    using assms by (simp add: path_exists_def)
  have nonempty: "view_static_table client domain_id table_id w = (Inr df, w') \<Longrightarrow> \<not> df_empty df"
    for df w'
    by (cases client)
      (auto simp: view_static_table_def handle_api_errors_def
        split: prod.splits sum.splits api_result.splits if_splits)
  show ?thesis
  proof (cases "is_ready client")
    case False
    then show ?thesis by (simp add: download_table_def)
  next
    case True
    show ?thesis
    proof (cases r)
      case (Inl e)
      with True v fr show ?thesis by (simp add: download_table_def)
    next
      case (Inr df)
      with True v fr ex nonempty [of df w1] show ?thesis
        by (simp add: download_table_def Let_def)
    qed
  qed
qed

theorem download_table_existing_destination_witness:
  "path_exists (export_world [Inr (Frame sample_table)]) (dest_path env0 ''padi.csv'') \<and>
   download_table env0 (Some client0) ''0000'' ''287'' ''padi.csv'' ''csv'' False
     (export_world [Inr (Frame sample_table)]) =
   (Inl (FileExistsError ''/home/user/padi.csv''), (export_world [])\<lparr>calls := 1\<rparr>) \<and>
   files ((export_world ([] :: (exn + nat api_result) list))\<lparr>calls := 1\<rparr>) ''/home/user/padi.csv'' =
     Some \<lparr>content = ''old bytes'', mtime = 3\<rparr>"
proof -
  let ?w = "export_world [Inr (Frame sample_table :: nat api_result)]"
  have p: "dest_path env0 ''padi.csv'' = ''/home/user/padi.csv''"
    by (simp add: dest_path_def env0_def)
  have e: "path_exists ?w (dest_path env0 ''padi.csv'')"
    by (simp add: p path_exists_def export_world_def world0_def)
  have n: "\<not> df_empty sample_table"
    by (simp add: df_empty_def ncols_def sample_table_def)
  have v: "view_static_table (Some client0) ''0000'' ''287'' ?w =
             (Inr sample_table, (export_world [])\<lparr>calls := 1\<rparr>)"
    by (simp add: view_static_table_def handle_api_errors_def api_call_with_retry_attempts
        to_thread_def client0_def export_world_def world0_def n)
  from download_table_existing_destination [OF e, of "Some client0" "''0000''" "''287''" "''csv''"]
  have "download_table env0 (Some client0) ''0000'' ''287'' ''padi.csv'' ''csv'' False ?w =
          (Inl (FileExistsError (dest_path env0 ''padi.csv'')), (export_world [])\<lparr>calls := 1\<rparr>)"
    by (simp add: v is_ready_def)
  with e show ?thesis
    by (simp add: p export_world_def world0_def)
qed

text \<open>
  C7 as stated fails where the call does not reach the destination check: with a client
  that is not ready, the export to an existing destination with \<^verbatim>\<open>overwrite=False\<close>
  raises \<open>ApiTokenError\<close>, not \<open>FileExistsError\<close>.
\<close>

theorem download_table_not_ready_counterexample:
  "path_exists (export_world ()) (dest_path env0 ''padi.csv'') \<and>
   download_table env0 (None :: (unit, nat) client option) ''0000'' ''287'' ''padi.csv'' ''csv'' False
     (export_world ()) = (Inl ApiTokenError, export_world ())"
  by (simp add: download_table_def is_ready_def path_exists_def dest_path_def env0_def
      export_world_def world0_def)


subsection \<open>The metadata fallback\<close>

lemma fetch_for_domain_log:
  "snd (fetch_for_domain env var_id token d w) =
     w\<lparr>http_log := http_log w @ map (Pair d) the_models\<rparr>"
  by (simp add: fetch_for_domain_def Let_def split: sum.splits)

lemma complete_source_domain: "complete (m\<lparr>source_domain := d\<rparr>) = complete m"
  by (simp add: complete_def)

lemma extract_not_available: "extract_list not_available mapping = Inr []"
  by (simp add: extract_list_def not_available_def)

lemma extract_sample_vervar:
  "extract_list sample_lists vervar_mapping = Inr [[(''id'', JNum 1), (''label'', JStr '' Aceh '')]]"
  by (simp add: extract_list_def sample_lists_def vervar_mapping_def item_field_def)

lemma extract_sample_turvar:
  "extract_list sample_lists turvar_mapping = Inr [[(''id'', JNum 2), (''label'', JStr ''Jumlah'')]]"
  by (simp add: extract_list_def sample_lists_def turvar_mapping_def item_field_def)

lemma extract_sample_th:
  "extract_list sample_lists th_mapping = Inr [[(''id'', JNum 123), (''label'', JStr ''2023'')]]"
  by (simp add: extract_list_def sample_lists_def th_mapping_def item_field_def)

lemma fetch_sample_regional:
  "fetch_for_domain env1 v ''token'' ''1100'' w =
     (Inr (empty_metadata ''1100''), w\<lparr>http_log := http_log w @ map (Pair ''1100'') the_models\<rparr>)"
  by (simp add: fetch_for_domain_def Let_def the_models_def gather4_def env1_def env0_def
      sample_http_def extract_not_available empty_metadata_def)

lemma fetch_sample_national:
  "fetch_for_domain env1 ''45'' ''token'' ''0000'' w =
     (Inr national_metadata, w\<lparr>http_log := http_log w @ map (Pair ''0000'') the_models\<rparr>)"
  by (simp add: fetch_for_domain_def Let_def the_models_def gather4_def env1_def env0_def
      sample_http_def extract_not_available extract_sample_vervar extract_sample_turvar
      extract_sample_th national_metadata_def clean_label_def py_strip_def is_space_def)

lemma fetch_sample_national_empty:
  "fetch_for_domain env1 ''99'' ''token'' ''0000'' w =
     (Inr (empty_metadata ''0000''), w\<lparr>http_log := http_log w @ map (Pair ''0000'') the_models\<rparr>)"
  by (simp add: fetch_for_domain_def Let_def the_models_def gather4_def env1_def env0_def
      sample_http_def extract_not_available empty_metadata_def)

text \<open>
  C6. A call for a domain other than 0000 whose result \<open>m\<close> misses one of the three
  lists: the four lookups are repeated for domain 0000; a complete fallback result
  replaces \<open>m\<close>, with \<open>source_domain\<close> 0000, and is returned; otherwise \<open>m\<close> is kept,
  and since it is not complete the call fails with \<open>BpsApiDataError\<close>.
\<close>

theorem get_dynamic_table_metadata_fallback:
  assumes "is_ready client"
    and "load_token env = Some token" and "token \<noteq> []"
    and "domain_id \<noteq> ''0000''"
    and "fetch_for_domain env var_id token domain_id w = (Inr m, w1)"
    and "\<not> complete m"
    and "fetch_for_domain env var_id token ''0000'' w1 = (Inr fb, w2)"
  shows "resolve_fallback env var_id token domain_id m w1 =
           (Inr (if complete fb then fb\<lparr>source_domain := ''0000''\<rparr> else m), w2)
       \<and> get_dynamic_table_metadata env client domain_id var_id w =
           (if complete fb then Inr (fb\<lparr>source_domain := ''0000''\<rparr>) else Inl BpsApiDataError, w2)
       \<and> http_log w2 =
           http_log w @ map (Pair domain_id) the_models @ map (Pair ''0000'') the_models"
proof -
  from assms(1) obtain c where c: "client = Some c"
    by (auto simp: is_ready_def)
  have r: "resolve_fallback env var_id token domain_id m w1 =
           (Inr (if complete fb then fb\<lparr>source_domain := ''0000''\<rparr> else m), w2)"
    using assms(4,6,7) by (simp add: resolve_fallback_def)
  have g: "get_dynamic_table_metadata env client domain_id var_id w =
           (if complete fb then Inr (fb\<lparr>source_domain := ''0000''\<rparr>) else Inl BpsApiDataError, w2)"
    using assms(2,3,5,6) r
    by (simp add: get_dynamic_table_metadata_def handle_api_errors_def c complete_source_domain
        reclassify_def)
  have "w1 = w\<lparr>http_log := http_log w @ map (Pair domain_id) the_models\<rparr>"
    using fetch_for_domain_log [of env var_id token domain_id w] assms(5) by simp
  moreover have "w2 = w1\<lparr>http_log := http_log w1 @ map (Pair ''0000'') the_models\<rparr>"
    using fetch_for_domain_log [of env var_id token "''0000''" w1] assms(7) by simp
  ultimately have l: "http_log w2 =
           http_log w @ map (Pair domain_id) the_models @ map (Pair ''0000'') the_models"
    by simp
  from r g l show ?thesis by blast
qed

theorem get_dynamic_table_metadata_fallback_witness:
  "get_dynamic_table_metadata env1 (Some client0) ''1100'' ''45'' (world0 []) =
     (Inr national_metadata,
      (world0 [])\<lparr>http_log := map (Pair ''1100'') the_models @ map (Pair ''0000'') the_models\<rparr>)
   \<and> get_dynamic_table_metadata env1 (Some client0) ''1100'' ''99'' (world0 []) =
     (Inl BpsApiDataError,
      (world0 [])\<lparr>http_log := map (Pair ''1100'') the_models @ map (Pair ''0000'') the_models\<rparr>)"
proof -
  let ?w = "world0 ([] :: (exn + nat api_result) list)"
  let ?w1 = "?w\<lparr>http_log := http_log ?w @ map (Pair ''1100'') the_models\<rparr>"
  let ?w2 = "?w1\<lparr>http_log := http_log ?w1 @ map (Pair ''0000'') the_models\<rparr>"
  have ready: "is_ready (Some client0)"
    by (simp add: is_ready_def)
  have tok: "load_token env1 = Some ''token''" "''token'' \<noteq> []"
    by (simp_all add: env1_def env0_def)
  have dom: "''1100'' \<noteq> ''0000''"
    by simp
  have inc: "\<not> complete (empty_metadata ''1100'')"
    by (simp add: complete_def empty_metadata_def)
  have w2: "?w2 = ?w\<lparr>http_log := map (Pair ''1100'') the_models @ map (Pair ''0000'') the_models\<rparr>"
    by (simp add: world0_def)
  have a: "get_dynamic_table_metadata env1 (Some client0) ''1100'' ''45'' ?w =
             (Inr national_metadata, ?w2)"
    using get_dynamic_table_metadata_fallback
      [OF ready tok dom fetch_sample_regional inc fetch_sample_national]
    by (simp add: complete_def national_metadata_def)
  have b: "get_dynamic_table_metadata env1 (Some client0) ''1100'' ''99'' ?w =
             (Inl BpsApiDataError, ?w2)"
    using get_dynamic_table_metadata_fallback
      [OF ready tok dom fetch_sample_regional inc fetch_sample_national_empty]
    by (simp add: complete_def empty_metadata_def)
  from a b show ?thesis
    unfolding w2 by simp
qed

end
